theory Spec2Isabelle
  imports Complex_Main
begin

section \<open>ReSlides: the script parser\<close>

text \<open>
  The repository holds three copies of the function \<^verbatim>\<open>parseScript\<close>:
  \<^item> the one of \<^verbatim>\<open>src/script.js\<close> (the web application), modelled as \<open>parseScript\<close>;
  \<^item> the one of the older front-end script \<^verbatim>\<open>src/unnamed/part_000\<close>, modelled as
    \<open>parseScript_part000\<close>;
  \<^item> the one of the Node test script at the end of \<^verbatim>\<open>src/unnamed/part_001\<close>, modelled as
    \<open>parseScript_part001\<close>. Its text is that of \<^verbatim>\<open>part_000\<close> except for the regular
    expression of the title line, so both are instances of \<open>parseScript_legacy\<close>.

  The keywords of the source are Spanish: \<^verbatim>\<open>Diapositiva\<close> (slide), \<^verbatim>\<open>Titulo\<close> (title),
  \<^verbatim>\<open>Contenido\<close>/\<^verbatim>\<open>Contexto\<close> (content/context), \<^verbatim>\<open>Datos\<close> (data), \<^verbatim>\<open>Grafica\<close> (chart),
  \<^verbatim>\<open>Descripcion\<close> (description), \<^verbatim>\<open>Adjunto\<close> (attachment), \<^verbatim>\<open>Valores\<close> (values),
  \<^verbatim>\<open>Etiquetas\<close> (labels).
\<close>

subsection \<open>Strings\<close>

text \<open>
  A JavaScript string is a sequence of UTF-16 code units. A code unit is modelled as a
  natural number, so that the white space beyond Latin-1 that \<^verbatim>\<open>trim\<close> and \<^verbatim>\<open>\s\<close> know
  is part of the model. \<open>str\<close> reads a HOL string literal as code units (a HOL character is
  a byte; its value is taken as the code unit, which is Latin-1).
\<close>

type_synonym jschar = nat
type_synonym jsstring = "jschar list"

definition str :: "string \<Rightarrow> jsstring" where
  "str cs = map of_char cs"

text \<open>\<^verbatim>\<open>WhiteSpace\<close> and \<^verbatim>\<open>LineTerminator\<close> of ECMAScript: what \<^verbatim>\<open>trim\<close> strips and what
  \<^verbatim>\<open>\s\<close> matches.\<close>

definition isWhiteSpace :: "jschar \<Rightarrow> bool" where
  "isWhiteSpace c \<longleftrightarrow>
     c = 9 \<or> c = 10 \<or> c = 11 \<or> c = 12 \<or> c = 13 \<or> c = 32 \<or> c = 160 \<or> c = 5760 \<or>
     (8192 \<le> c \<and> c \<le> 8202) \<or> c = 8232 \<or> c = 8233 \<or> c = 8239 \<or> c = 8287 \<or>
     c = 12288 \<or> c = 65279"

text \<open>\<^verbatim>\<open>\d\<close>: the digits 0 to 9.\<close>

definition isDigit :: "jschar \<Rightarrow> bool" where
  "isDigit c \<longleftrightarrow> 48 \<le> c \<and> c \<le> 57"

text \<open>\<^verbatim>\<open>String.prototype.trim\<close>.\<close>

definition trim :: "jsstring \<Rightarrow> jsstring" where
  "trim s = rev (dropWhile isWhiteSpace (rev (dropWhile isWhiteSpace s)))"

text \<open>\<^verbatim>\<open>s.split(d)\<close> for a separator \<open>d\<close> of one code unit. The result is never empty:
  \<^verbatim>\<open>''.split(';')\<close> is \<^verbatim>\<open>['']\<close>.\<close>

fun splitOn :: "jschar \<Rightarrow> jsstring \<Rightarrow> jsstring list" where
  "splitOn d [] = [[]]"
| "splitOn d (c # cs) =
     (if c = d then [] # splitOn d cs
      else (case splitOn d cs of [] \<Rightarrow> [[c]] | l # ls \<Rightarrow> (c # l) # ls))"

text \<open>\<^verbatim>\<open>raw.split(/\r?\n/)\<close>: a line feed ends a line, and a carriage return right before
  it belongs to the separator.\<close>

fun splitLines :: "jsstring \<Rightarrow> jsstring list" where
  "splitLines [] = [[]]"
| "splitLines (c # cs) =
     (if c = 10 then [] # splitLines cs
      else if c = 13 \<and> cs \<noteq> [] \<and> hd cs = 10 then [] # splitLines (tl cs)
      else (case splitLines cs of [] \<Rightarrow> [[c]] | l # ls \<Rightarrow> (c # l) # ls))"

text \<open>The idiom \<^verbatim>\<open>s.split(d).map(x => x.trim()).filter(Boolean)\<close>.\<close>

definition fragments :: "jschar \<Rightarrow> jsstring \<Rightarrow> jsstring list" where
  "fragments d s = filter (\<lambda>t. t \<noteq> []) (map trim (splitOn d s))"

subsection \<open>Regular expressions of the parser\<close>

text \<open>
  Every regular expression of the parser is anchored at the start of the string, has the
  flag \<^verbatim>\<open>i\<close> and is an alternation of literal words. With the flag \<^verbatim>\<open>i\<close> (and without
  \<^verbatim>\<open>u\<close>) two code units match when their canonical forms, the upper-case forms, are
  equal. \<open>canonicalize\<close> is that map on Latin-1; beyond Latin-1 it is the identity here,
  which changes no match: no code unit beyond Latin-1 has the canonical form of a
  character of the parser's words (ECMAScript never maps a code unit above 127 to one
  below 128, and the upper-case forms of i-acute, a-acute and o-acute are reached from
  these letters only).
\<close>

definition canonicalize :: "jschar \<Rightarrow> jschar" where
  "canonicalize c =
     (if (97 \<le> c \<and> c \<le> 122) \<or> (224 \<le> c \<and> c \<le> 254 \<and> c \<noteq> 247) then c - 32 else c)"

fun matchLit :: "jsstring \<Rightarrow> jsstring \<Rightarrow> jsstring option" where
  "matchLit [] s = Some s"
| "matchLit (p # ps) [] = None"
| "matchLit (p # ps) (c # cs) =
     (if canonicalize p = canonicalize c then matchLit ps cs else None)"

text \<open>An alternation of literal words: the first word that matches. The result is the
  rest of the string after the match.\<close>

fun matchAlt :: "jsstring list \<Rightarrow> jsstring \<Rightarrow> jsstring option" where
  "matchAlt [] s = None"
| "matchAlt (p # ps) s = (case matchLit p s of Some r \<Rightarrow> Some r | None \<Rightarrow> matchAlt ps s)"

text \<open>\<^verbatim>\<open>re.test(s)\<close> and \<^verbatim>\<open>s.replace(re, '')\<close> for such an expression.\<close>

definition reTest :: "jsstring list \<Rightarrow> jsstring \<Rightarrow> bool" where
  "reTest re s \<longleftrightarrow> matchAlt re s \<noteq> None"

definition reStrip :: "jsstring list \<Rightarrow> jsstring \<Rightarrow> jsstring" where
  "reStrip re s = (case matchAlt re s of None \<Rightarrow> s | Some r \<Rightarrow> r)"

text \<open>\<^verbatim>\<open>/^Diapositiva\s+\d+/i.test(line)\<close>.\<close>

definition isSlideMarker :: "jsstring \<Rightarrow> bool" where
  "isSlideMarker line =
     (case matchLit (str ''Diapositiva'') line of
        None \<Rightarrow> False
      | Some r \<Rightarrow>
          r \<noteq> [] \<and> isWhiteSpace (hd r) \<and>
          (case dropWhile isWhiteSpace r of [] \<Rightarrow> False | d # _ \<Rightarrow> isDigit d))"

text \<open>The words. Code unit 237 is i-acute, 225 a-acute, 243 o-acute.\<close>

definition re_titulo :: "jsstring list" where
  "re_titulo = [84 # 237 # str ''tulo:'', str ''Titulo:'']"

definition re_titulo_accent :: "jsstring list" where
  "re_titulo_accent = [84 # 237 # str ''tulo:'']"

definition re_contenido :: "jsstring list" where
  "re_contenido = [str ''Contenido:'', str ''Contexto:'']"

definition re_datos :: "jsstring list" where
  "re_datos = [str ''Datos:'']"

definition re_datos_test_legacy :: "jsstring list" where
  "re_datos_test_legacy = [str ''Datos:'', str ''Gr'' @ 225 # str ''fica:'', str ''Grafica:'']"

definition re_datos_legacy :: "jsstring list" where
  "re_datos_legacy = [str ''Gr'' @ 225 # str ''fica:'', str ''Grafica:'', str ''Datos:'']"

definition re_labels :: "jsstring list" where
  "re_labels = [str ''labels:'', str ''label:'', str ''etiquetas:'', str ''etiqueta:'']"

definition re_valores :: "jsstring list" where
  "re_valores = [str ''valores:'', str ''valore:'', str ''values:'', str ''value:'']"

definition re_labels_test_legacy :: "jsstring list" where
  "re_labels_test_legacy = [str ''labels'', str ''label'']"

definition re_labels_legacy :: "jsstring list" where
  "re_labels_legacy = [str ''labels:'', str ''label:'']"

definition re_valores_test_legacy :: "jsstring list" where
  "re_valores_test_legacy = [str ''valores'', str ''valore'', str ''values'', str ''value'']"

definition re_descripcion :: "jsstring list" where
  "re_descripcion = [str ''Descripci'' @ 243 # str ''n:'', str ''Descripcion:'']"

definition re_adjunto :: "jsstring list" where
  "re_adjunto = [str ''Adjunto:'']"

subsection \<open>Numbers\<close>

text \<open>
  \<^verbatim>\<open>parseFloat\<close> reads the longest prefix of the string, after leading white space, that
  is a \<^verbatim>\<open>StrDecimalLiteral\<close>, and returns \<^verbatim>\<open>NaN\<close> when there is none. A finite result is
  modelled by the exact value of the literal, a rational; the rounding to a double is not
  modelled.
\<close>

datatype jsnumber = NaN | PosInfinity | NegInfinity | Finite rat

definition isNaN :: "jsnumber \<Rightarrow> bool" where
  "isNaN v \<longleftrightarrow> v = NaN"

definition digitsValue :: "jsstring \<Rightarrow> nat" where
  "digitsValue ds = foldl (\<lambda>a d. 10 * a + (d - 48)) 0 ds"

definition scale10 :: "rat \<Rightarrow> int \<Rightarrow> rat" where
  "scale10 m e = (if 0 \<le> e then m * 10 ^ nat e else m / 10 ^ nat (- e))"

text \<open>\<^verbatim>\<open>ExponentPart\<close>: \<^verbatim>\<open>e\<close> or \<^verbatim>\<open>E\<close>, an optional sign and at least one digit; it is
  part of the prefix only when complete.\<close>

definition exponentPart :: "jsstring \<Rightarrow> int" where
  "exponentPart r =
     (case r of
        [] \<Rightarrow> 0
      | e # r' \<Rightarrow>
          if e = 101 \<or> e = 69 then
            (let neg = (r' \<noteq> [] \<and> hd r' = 45);
                 r'' = (if r' \<noteq> [] \<and> (hd r' = 45 \<or> hd r' = 43) then tl r' else r');
                 ds = takeWhile isDigit r''
             in if ds = [] then 0
                else if neg then - int (digitsValue ds) else int (digitsValue ds))
          else 0)"

text \<open>\<^verbatim>\<open>StrUnsignedDecimalLiteral\<close> other than \<^verbatim>\<open>Infinity\<close>: digits, an optional point
  with digits, with at least one digit in all, and an optional exponent.\<close>

definition parseUnsigned :: "jsstring \<Rightarrow> rat option" where
  "parseUnsigned s =
     (let ip = takeWhile isDigit s;
          r1 = dropWhile isDigit s;
          hasDot = (r1 \<noteq> [] \<and> hd r1 = 46);
          fp = (if hasDot then takeWhile isDigit (tl r1) else []);
          r2 = (if hasDot then dropWhile isDigit (tl r1) else r1)
      in if ip = [] \<and> fp = [] then None
         else Some (scale10 (of_nat (digitsValue (ip @ fp)))
                      (exponentPart r2 - int (length fp))))"

definition parseFloat :: "jsstring \<Rightarrow> jsnumber" where
  "parseFloat s =
     (let t = dropWhile isWhiteSpace s;
          neg = (t \<noteq> [] \<and> hd t = 45);
          u = (if t \<noteq> [] \<and> (hd t = 45 \<or> hd t = 43) then tl t else t)
      in if take 8 u = str ''Infinity'' then (if neg then NegInfinity else PosInfinity)
         else (case parseUnsigned u of
                 None \<Rightarrow> NaN
               | Some q \<Rightarrow> Finite (if neg then - q else q)))"

text \<open>\<^verbatim>\<open>s.split(',').map(x => parseFloat(x.trim())).filter(v => !isNaN(v))\<close>.\<close>

definition numbers :: "jsstring \<Rightarrow> jsnumber list" where
  "numbers s = filter (\<lambda>v. \<not> isNaN v) (map (parseFloat \<circ> trim) (splitOn 44 s))"

subsection \<open>Slides\<close>

text \<open>The object \<^verbatim>\<open>{ labels: [], values: [] }\<close>; the field \<^verbatim>\<open>values\<close> is written
  \<open>values'\<close>.\<close>

record graphData =
  labels :: "jsstring list"
  values' :: "jsnumber list"

record slide =
  title :: jsstring
  content :: "jsstring list"
  graph :: "graphData option"
  description :: jsstring
  attachments :: "jsstring list"

text \<open>The object literal of \<^verbatim>\<open>startNewSlide\<close>; \<open>None\<close> is \<^verbatim>\<open>null\<close>.\<close>

definition emptySlide :: slide where
  "emptySlide = \<lparr>title = [], content = [], graph = None, description = [], attachments = []\<rparr>"

definition emptyGraph :: graphData where
  "emptyGraph = \<lparr>labels = [], values' = []\<rparr>"

text \<open>The two variables of the parser: the array \<^verbatim>\<open>slides\<close> and the cursor
  \<^verbatim>\<open>current\<close>, which is \<^verbatim>\<open>null\<close> at first.\<close>

record pstate =
  slides :: "slide list"
  current :: "slide option"

definition initial :: pstate where
  "initial = \<lparr>slides = [], current = None\<rparr>"

text \<open>Reading or writing a property of \<^verbatim>\<open>null\<close> throws a \<^verbatim>\<open>TypeError\<close>. It is the only
  exception that the statements of the parser can throw on a string.\<close>

datatype error = TypeError

definition startNewSlide :: "pstate \<Rightarrow> pstate" where
  "startNewSlide st =
     \<lparr>slides = (case current st of None \<Rightarrow> slides st | Some c \<Rightarrow> slides st @ [c]),
      current = Some emptySlide\<rparr>"

text \<open>An assignment \<^verbatim>\<open>current.f = v\<close> or a call \<^verbatim>\<open>current.f.push(...)\<close>.\<close>

definition updCurrent :: "(slide \<Rightarrow> slide) \<Rightarrow> pstate \<Rightarrow> error + pstate" where
  "updCurrent f st =
     (case current st of
        None \<Rightarrow> Inl TypeError
      | Some c \<Rightarrow> Inr (st\<lparr>current := Some (f c)\<rparr>))"

text \<open>\<^verbatim>\<open>if (!current) startNewSlide();\<close>\<close>

definition ensureCurrent :: "pstate \<Rightarrow> pstate" where
  "ensureCurrent st = (if current st = None then startNewSlide st else st)"

text \<open>\<^verbatim>\<open>ts.forEach((t) => current.content.push(t))\<close>: \<^verbatim>\<open>current\<close> is read once for each
  element, so not at all for an empty array.\<close>

definition pushEach :: "jsstring list \<Rightarrow> pstate \<Rightarrow> error + pstate" where
  "pushEach ts st =
     (if ts = [] then Inr st else updCurrent (\<lambda>c. c\<lparr>content := content c @ ts\<rparr>) st)"

text \<open>The loop over the lines, which an exception leaves, and the last statements
  \<^verbatim>\<open>if (current) slides.push(current); return slides;\<close>.\<close>

fun runLines :: "(pstate \<Rightarrow> jsstring \<Rightarrow> error + pstate) \<Rightarrow> pstate \<Rightarrow> jsstring list
    \<Rightarrow> error + pstate" where
  "runLines f st [] = Inr st"
| "runLines f st (l # ls) =
     (case f st l of Inl e \<Rightarrow> Inl e | Inr st' \<Rightarrow> runLines f st' ls)"

definition finish :: "pstate \<Rightarrow> slide list" where
  "finish st = (case current st of None \<Rightarrow> slides st | Some c \<Rightarrow> slides st @ [c])"

subsection \<open>The parser of \<^verbatim>\<open>src/script.js\<close>\<close>

text \<open>The callback of \<^verbatim>\<open>parts.forEach\<close> in the branch of \<^verbatim>\<open>Datos:\<close>.\<close>

definition applySection :: "graphData \<Rightarrow> jsstring \<Rightarrow> graphData" where
  "applySection g sec =
     (let s = trim sec in
      if s = [] then g
      else if reTest re_labels s then g\<lparr>labels := fragments 44 (trim (reStrip re_labels s))\<rparr>
      else if reTest re_valores s then g\<lparr>values' := numbers (trim (reStrip re_valores s))\<rparr>
      else g)"

definition datosGraph :: "jsstring \<Rightarrow> graphData" where
  "datosGraph line = foldl applySection emptyGraph (splitOn 59 (trim (reStrip re_datos line)))"

text \<open>The body of the loop, for one element \<^verbatim>\<open>rawLine\<close> of \<^verbatim>\<open>lines\<close>.\<close>

definition processLine :: "pstate \<Rightarrow> jsstring \<Rightarrow> error + pstate" where
  "processLine st rawLine =
     (let line = trim rawLine in
      if line = [] then Inr st
      else if isSlideMarker line then Inr (startNewSlide st)
      else if reTest re_titulo line then
        updCurrent (\<lambda>c. c\<lparr>title := trim (reStrip re_titulo line)\<rparr>) (ensureCurrent st)
      else if reTest re_contenido line then
        (let st1 = ensureCurrent st; text = trim (reStrip re_contenido line) in
         if text \<noteq> [] then pushEach (fragments 59 text) st1 else Inr st1)
      else if reTest re_datos line then
        updCurrent (\<lambda>c. c\<lparr>graph := Some (datosGraph line)\<rparr>) (ensureCurrent st)
      else if reTest re_descripcion line then
        updCurrent (\<lambda>c. c\<lparr>description := trim (reStrip re_descripcion line)\<rparr>) (ensureCurrent st)
      else if reTest re_adjunto line then
        (let st1 = ensureCurrent st; rest = trim (reStrip re_adjunto line) in
         if rest \<noteq> [] then
           updCurrent (\<lambda>c. c\<lparr>attachments := attachments c @ fragments 44 rest\<rparr>) st1
         else Inr st1)
      else pushEach (fragments 59 line) (ensureCurrent st))"

definition parseScript :: "jsstring \<Rightarrow> error + slide list" where
  "parseScript raw = map_sum id finish (runLines processLine initial (splitLines raw))"

subsection \<open>The parser of \<^verbatim>\<open>part_000\<close> and of the test script in \<^verbatim>\<open>part_001\<close>\<close>

text \<open>The callback of \<^verbatim>\<open>sections.forEach\<close>; the sections are trimmed already. The tests
  have no colon, the replacements have one.\<close>

definition applySection_legacy :: "graphData \<Rightarrow> jsstring \<Rightarrow> graphData" where
  "applySection_legacy g sec =
     (if reTest re_labels_test_legacy sec then
        g\<lparr>labels := fragments 44 (reStrip re_labels_legacy sec)\<rparr>
      else if reTest re_valores_test_legacy sec then
        g\<lparr>values' := numbers (reStrip re_valores sec)\<rparr>
      else g)"

definition datosGraph_legacy :: "jsstring \<Rightarrow> graphData" where
  "datosGraph_legacy line =
     foldl applySection_legacy emptyGraph
       (map trim (splitOn 59 (trim (reStrip re_datos_legacy line))))"

text \<open>The body of the loop, for one element \<^verbatim>\<open>line\<close> of the trimmed, non-empty lines.
  The parameter is the regular expression of the title line, the only difference between
  the two files. No branch tests \<^verbatim>\<open>current\<close> before using it, except the last one.\<close>

definition processLine_legacy :: "jsstring list \<Rightarrow> pstate \<Rightarrow> jsstring \<Rightarrow> error + pstate" where
  "processLine_legacy re_tit st line =
     (if isSlideMarker line then Inr (startNewSlide st)
      else if reTest re_tit line then
        updCurrent (\<lambda>c. c\<lparr>title := trim (reStrip re_tit line)\<rparr>) st
      else if reTest re_contenido line then
        updCurrent (\<lambda>c. c\<lparr>content := content c @ fragments 59 (trim (reStrip re_contenido line))\<rparr>) st
      else if reTest re_datos_test_legacy line then
        updCurrent (\<lambda>c. c\<lparr>graph := Some (datosGraph_legacy line)\<rparr>) st
      else if reTest re_descripcion line then
        updCurrent (\<lambda>c. c\<lparr>description := trim (reStrip re_descripcion line)\<rparr>) st
      else if reTest re_adjunto line then
        updCurrent (\<lambda>c. c\<lparr>attachments := attachments c @ fragments 44 (reStrip re_adjunto line)\<rparr>) st
      else if current st \<noteq> None then
        updCurrent (\<lambda>c. c\<lparr>content := content c @ fragments 59 line\<rparr>) st
      else Inr st)"

definition parseScript_legacy :: "jsstring list \<Rightarrow> jsstring \<Rightarrow> error + slide list" where
  "parseScript_legacy re_tit raw =
     map_sum id finish
       (runLines (processLine_legacy re_tit) initial
          (filter (\<lambda>l. length l > 0) (map trim (splitLines raw))))"

definition parseScript_part000 :: "jsstring \<Rightarrow> error + slide list" where
  "parseScript_part000 = parseScript_legacy re_titulo"

definition parseScript_part001 :: "jsstring \<Rightarrow> error + slide list" where
  "parseScript_part001 = parseScript_legacy re_titulo_accent"

subsection \<open>Notions used in the statements\<close>

text \<open>A string is blank when it is empty or has white space only.\<close>

definition blank :: "jsstring \<Rightarrow> bool" where
  "blank s \<longleftrightarrow> (\<forall>c\<in>set s. isWhiteSpace c)"

text \<open>\<^verbatim>\<open>lines.join('\n')\<close>, and the input without its blank lines: the lines that
  \<^verbatim>\<open>split(/\r?\n/)\<close> gives, the blank ones left out, joined again by line feeds.\<close>

fun joinLines :: "jsstring list \<Rightarrow> jsstring" where
  "joinLines [] = []"
| "joinLines [l] = l"
| "joinLines (l # l' # ls) = l @ 10 # joinLines (l' # ls)"

definition removeBlankLines :: "jsstring \<Rightarrow> jsstring" where
  "removeBlankLines raw = joinLines (filter (\<lambda>l. trim l \<noteq> []) (splitLines raw))"

text \<open>A line without the carriage return at its end, if it has one.\<close>

definition chopCR :: "jsstring \<Rightarrow> jsstring" where
  "chopCR l = (if l \<noteq> [] \<and> last l = 13 then butlast l else l)"

subsection \<open>The loop bodies as functions\<close>

text \<open>
  The lemmas below show that the loop body of \<^verbatim>\<open>src/script.js\<close> is the function \<open>step\<close>
  on a trimmed, non-empty line: a slide marker starts a slide, any other line changes the
  current slide by \<open>lineEffect\<close>, and where there is no current slide the empty slide
  takes its place (\<open>cur\<close>). \<open>lineEffect_legacy\<close> is the same for the legacy parser,
  which has it only where a current slide exists.
\<close>

definition cur :: "pstate \<Rightarrow> slide" where
  "cur st = (case current st of None \<Rightarrow> emptySlide | Some c \<Rightarrow> c)"

definition lineEffect :: "jsstring \<Rightarrow> slide \<Rightarrow> slide" where
  "lineEffect line c =
     (if reTest re_titulo line then c\<lparr>title := trim (reStrip re_titulo line)\<rparr>
      else if reTest re_contenido line then
        c\<lparr>content := content c @ fragments 59 (trim (reStrip re_contenido line))\<rparr>
      else if reTest re_datos line then c\<lparr>graph := Some (datosGraph line)\<rparr>
      else if reTest re_descripcion line then
        c\<lparr>description := trim (reStrip re_descripcion line)\<rparr>
      else if reTest re_adjunto line then
        c\<lparr>attachments := attachments c @ fragments 44 (trim (reStrip re_adjunto line))\<rparr>
      else c\<lparr>content := content c @ fragments 59 line\<rparr>)"

definition step :: "pstate \<Rightarrow> jsstring \<Rightarrow> pstate" where
  "step st line =
     (if isSlideMarker line then startNewSlide st
      else \<lparr>slides = slides st, current = Some (lineEffect line (cur st))\<rparr>)"

definition lineEffect_legacy :: "jsstring list \<Rightarrow> jsstring \<Rightarrow> slide \<Rightarrow> slide" where
  "lineEffect_legacy re_tit line c =
     (if reTest re_tit line then c\<lparr>title := trim (reStrip re_tit line)\<rparr>
      else if reTest re_contenido line then
        c\<lparr>content := content c @ fragments 59 (trim (reStrip re_contenido line))\<rparr>
      else if reTest re_datos_test_legacy line then c\<lparr>graph := Some (datosGraph_legacy line)\<rparr>
      else if reTest re_descripcion line then
        c\<lparr>description := trim (reStrip re_descripcion line)\<rparr>
      else if reTest re_adjunto line then
        c\<lparr>attachments := attachments c @ fragments 44 (reStrip re_adjunto line)\<rparr>
      else c\<lparr>content := content c @ fragments 59 line\<rparr>)"

text \<open>A line of the legacy parser that uses \<^verbatim>\<open>current\<close> without a test.\<close>

definition keywordLine_legacy :: "jsstring list \<Rightarrow> jsstring \<Rightarrow> bool" where
  "keywordLine_legacy re_tit line \<longleftrightarrow>
     reTest re_tit line \<or> reTest re_contenido line \<or> reTest re_datos_test_legacy line \<or>
     reTest re_descripcion line \<or> reTest re_adjunto line"

text \<open>A line that no branch of the parser of \<^verbatim>\<open>src/script.js\<close> recognises but the last
  one, which takes it as content.\<close>

definition plainLine :: "jsstring \<Rightarrow> bool" where
  "plainLine line \<longleftrightarrow>
     \<not> (isSlideMarker line \<or> reTest re_titulo line \<or> reTest re_contenido line \<or>
        reTest re_datos line \<or> reTest re_descripcion line \<or> reTest re_adjunto line)"

text \<open>The invariant of the loops: no blank string in the lists of a slide, for the slides
  pushed and for the current one.\<close>

definition slideClean :: "slide \<Rightarrow> bool" where
  "slideClean s \<longleftrightarrow>
     (\<forall>x\<in>set (content s). \<not> blank x) \<and>
     (\<forall>g. graph s = Some g \<longrightarrow> (\<forall>x\<in>set (labels g). \<not> blank x)) \<and>
     (\<forall>x\<in>set (attachments s). \<not> blank x)"

definition stateClean :: "pstate \<Rightarrow> bool" where
  "stateClean st \<longleftrightarrow>
     (\<forall>s\<in>set (slides st). slideClean s) \<and> (\<forall>c. current st = Some c \<longrightarrow> slideClean c)"


text \<open>The two spellings of the chart keyword, and the unaccented spelling of the title
  keyword.\<close>

definition re_grafica :: "jsstring list" where
  "re_grafica = [str ''Gr'' @ 225 # str ''fica:'', str ''Grafica:'']"

definition re_titulo_plain :: "jsstring list" where
  "re_titulo_plain = [str ''Titulo:'']"

section \<open>Properties\<close>

text \<open>The definitions that evaluate the parsers on a concrete input.\<close>

lemmas eval_defs = str_def trim_def isWhiteSpace_def isDigit_def canonicalize_def reTest_def
  reStrip_def isSlideMarker_def fragments_def re_titulo_def re_titulo_accent_def re_contenido_def
  re_datos_def re_datos_test_legacy_def re_datos_legacy_def re_labels_def re_valores_def
  re_labels_test_legacy_def re_labels_legacy_def re_valores_test_legacy_def re_descripcion_def
  re_adjunto_def isNaN_def digitsValue_def scale10_def exponentPart_def parseUnsigned_def
  parseFloat_def numbers_def emptySlide_def emptyGraph_def initial_def startNewSlide_def
  updCurrent_def ensureCurrent_def finish_def pushEach_def applySection_def datosGraph_def
  processLine_def parseScript_def applySection_legacy_def datosGraph_legacy_def
  processLine_legacy_def parseScript_legacy_def parseScript_part000_def parseScript_part001_def
  Let_def

subsection \<open>Trimming\<close>

lemma all_dropWhile: "(\<forall>x\<in>set (dropWhile P s). P x) \<longleftrightarrow> (\<forall>x\<in>set s. P x)"
  by (induction s) auto

lemma trim_Nil_iff: "trim s = [] \<longleftrightarrow> blank s"
  by (simp add: trim_def blank_def dropWhile_eq_Nil_conv all_dropWhile)

lemma last_trim: "trim s \<noteq> [] \<Longrightarrow> \<not> isWhiteSpace (last (trim s))"
  by (simp add: trim_def last_rev hd_dropWhile)

lemma hd_trim: "trim s \<noteq> [] \<Longrightarrow> \<not> isWhiteSpace (hd (trim s))"
proof -
  assume ne: "trim s \<noteq> []"
  define t where "t = dropWhile isWhiteSpace s"
  define u where "u = dropWhile isWhiteSpace (rev t)"
  have tr: "trim s = rev u" by (simp add: trim_def t_def u_def)
  with ne have u: "u \<noteq> []" by simp
  have t: "t \<noteq> []"
  proof
    assume "t = []"
    then have "u = []" by (simp add: u_def)
    with u show False by simp
  qed
  have "rev t = takeWhile isWhiteSpace (rev t) @ u"
    by (simp add: u_def)
  with u have "last u = last (rev t)" by (metis last_appendR)
  also have "\<dots> = hd t" using t by (simp add: last_rev)
  finally have "hd (trim s) = hd t" using u tr by (simp add: hd_rev)
  moreover have "\<not> isWhiteSpace (hd t)" using t unfolding t_def by (rule hd_dropWhile)
  ultimately show ?thesis by simp
qed

lemma trim_not_blank: "trim s \<noteq> [] \<Longrightarrow> \<not> blank (trim s)"
  using hd_trim [of s] by (auto simp: blank_def)

lemma dropWhile_hd_id: "xs \<noteq> [] \<Longrightarrow> \<not> P (hd xs) \<Longrightarrow> dropWhile P xs = xs"
  by (cases xs) simp_all

lemma trim_fixed:
  assumes "s \<noteq> []" "\<not> isWhiteSpace (hd s)" "\<not> isWhiteSpace (last s)"
  shows "trim s = s"
proof -
  have 1: "dropWhile isWhiteSpace s = s"
    using assms(1,2) by (rule dropWhile_hd_id)
  have "rev s \<noteq> []" "\<not> isWhiteSpace (hd (rev s))"
    using assms(1,3) by (simp_all add: hd_rev)
  then have 2: "dropWhile isWhiteSpace (rev s) = rev s"
    by (rule dropWhile_hd_id)
  show ?thesis unfolding trim_def 1 2 by simp
qed

lemma trim_trim: "trim (trim s) = trim s"
proof (cases "trim s = []")
  case True
  have "trim [] = []" by (simp add: trim_def)
  with True show ?thesis by simp
next
  case False
  then show ?thesis by (intro trim_fixed hd_trim last_trim)
qed

lemma trim_snoc_white: "isWhiteSpace c \<Longrightarrow> trim (l @ [c]) = trim l"
proof (cases "blank l")
  case True
  assume "isWhiteSpace c"
  with True have "blank (l @ [c])" by (simp add: blank_def)
  with True show ?thesis by (simp add: trim_Nil_iff [symmetric])
next
  case False
  assume c: "isWhiteSpace c"
  from False have "dropWhile isWhiteSpace (l @ [c]) = dropWhile isWhiteSpace l @ [c]"
    by (auto simp: blank_def dropWhile_append)
  with c show ?thesis by (simp add: trim_def)
qed

lemma fragments_not_blank: "x \<in> set (fragments d s) \<Longrightarrow> \<not> blank x"
proof -
  assume "x \<in> set (fragments d s)"
  then obtain y where "x = trim y" "trim y \<noteq> []"
    unfolding fragments_def by auto
  then show ?thesis by (simp add: trim_not_blank)
qed

subsection \<open>Lines\<close>

lemma splitLines_not_Nil: "splitLines s \<noteq> []"
  by (induction s) (auto split: list.splits)

lemma splitLines_no_LF: "10 \<notin> set l \<Longrightarrow> splitLines l = [l]"
proof (induction l)
  case Nil
  show ?case by simp
next
  case (Cons c cs)
  then have "c \<noteq> 10" "cs \<noteq> [] \<longrightarrow> hd cs \<noteq> 10" "splitLines cs = [cs]"
    by (auto dest: hd_in_set)
  then show ?case by auto
qed

lemma splitLines_line: "10 \<notin> set l \<Longrightarrow> splitLines (l @ 10 # rest) = chopCR l # splitLines rest"
proof (induction l)
  case Nil
  show ?case by (simp add: chopCR_def)
next
  case (Cons c cs)
  then have c: "c \<noteq> 10" and IH: "splitLines (cs @ 10 # rest) = chopCR cs # splitLines rest"
    by auto
  show ?case
  proof (cases "cs = []")
    case True
    then show ?thesis using c by (simp add: chopCR_def)
  next
    case False
    with Cons.prems have "hd (cs @ 10 # rest) \<noteq> 10"
      by (cases cs) auto
    with c IH False show ?thesis by (simp add: chopCR_def)
  qed
qed

lemma trim_chopCR: "trim (chopCR l) = trim l"
proof (cases "l \<noteq> [] \<and> last l = 13")
  case True
  then have "l = butlast l @ [13]" by (metis append_butlast_last_id)
  then have "trim l = trim (butlast l)"
    using trim_snoc_white [of 13 "butlast l"] by (simp add: isWhiteSpace_def)
  with True show ?thesis by (simp add: chopCR_def)
next
  case False
  then show ?thesis by (auto simp: chopCR_def)
qed

lemma lines_have_no_LF: "\<forall>l\<in>set (splitLines s). 10 \<notin> set l"
proof (induction s rule: splitLines.induct)
  case 1
  show ?case by simp
next
  case (2 c cs)
  consider (lf) "c = 10" | (crlf) "c \<noteq> 10" "c = 13 \<and> cs \<noteq> [] \<and> hd cs = 10"
    | (other) "c \<noteq> 10" "\<not> (c = 13 \<and> cs \<noteq> [] \<and> hd cs = 10)"
    by blast
  then show ?case
  proof cases
    case lf
    with "2.IH"(1) show ?thesis by simp
  next
    case crlf
    with "2.IH"(2) show ?thesis by simp
  next
    case other
    with "2.IH"(3) have IH: "\<forall>l\<in>set (splitLines cs). 10 \<notin> set l" by simp
    obtain x xs where "splitLines cs = x # xs"
      using splitLines_not_Nil [of cs] by (cases "splitLines cs") auto
    with IH other show ?thesis by auto
  qed
qed

lemma map_trim_split_join:
  "ls \<noteq> [] \<Longrightarrow> \<forall>l\<in>set ls. 10 \<notin> set l \<Longrightarrow> map trim (splitLines (joinLines ls)) = map trim ls"
proof (induction ls rule: joinLines.induct)
  case 1
  then show ?case by simp
next
  case (2 l)
  then show ?case by (simp add: splitLines_no_LF)
next
  case (3 l l' ls)
  then show ?case by (simp add: splitLines_line trim_chopCR)
qed

lemma kept_lines_removeBlankLines:
  "filter (\<lambda>l. l \<noteq> []) (map trim (splitLines (removeBlankLines raw))) =
   filter (\<lambda>l. l \<noteq> []) (map trim (splitLines raw))"
proof -
  let ?ls = "filter (\<lambda>l. trim l \<noteq> []) (splitLines raw)"
  have eq: "filter (\<lambda>l. l \<noteq> []) (map trim (splitLines raw)) = map trim ?ls"
    by (simp add: filter_map comp_def)
  show ?thesis
  proof (cases "?ls = []")
    case True
    then show ?thesis unfolding eq by (simp add: removeBlankLines_def trim_def)
  next
    case False
    have "\<forall>l\<in>set ?ls. 10 \<notin> set l" using lines_have_no_LF [of raw] by simp
    with False have "map trim (splitLines (removeBlankLines raw)) = map trim ?ls"
      unfolding removeBlankLines_def by (rule map_trim_split_join)
    then show ?thesis unfolding eq by (simp add: filter_map comp_def)
  qed
qed


subsection \<open>The loop body of script.js as a function on states\<close>

lemma fragments_Nil: "fragments d [] = []"
  by (simp add: fragments_def trim_def)

lemma ensureCurrent_eq: "ensureCurrent st = \<lparr>slides = slides st, current = Some (cur st)\<rparr>"
  by (cases "current st") (simp_all add: ensureCurrent_def startNewSlide_def cur_def)

lemma updCurrent_Some:
  "updCurrent f \<lparr>slides = ss, current = Some c\<rparr> = Inr \<lparr>slides = ss, current = Some (f c)\<rparr>"
  by (simp add: updCurrent_def)

lemma pushEach_Some:
  "pushEach ts \<lparr>slides = ss, current = Some c\<rparr> =
     Inr \<lparr>slides = ss, current = Some (c\<lparr>content := content c @ ts\<rparr>)\<rparr>"
  by (simp add: pushEach_def updCurrent_def)

lemma processLine_blank: "trim l = [] \<Longrightarrow> processLine st l = Inr st"
  by (simp add: processLine_def)

lemma processLine_step:
  "trim l \<noteq> [] \<Longrightarrow> processLine st l = Inr (step st (trim l))"
  by (simp add: processLine_def step_def lineEffect_def Let_def ensureCurrent_eq
      updCurrent_Some pushEach_Some fragments_Nil)

lemma runLines_processLine:
  "runLines processLine st ls = Inr (foldl step st (filter (\<lambda>l. l \<noteq> []) (map trim ls)))"
  by (induction ls arbitrary: st) (simp_all add: processLine_blank processLine_step)

lemma parseScript_eq:
  "parseScript raw =
     Inr (finish (foldl step initial (filter (\<lambda>l. l \<noteq> []) (map trim (splitLines raw)))))"
  by (simp add: parseScript_def runLines_processLine)

subsection \<open>The loop body of the legacy parser\<close>

lemma processLine_legacy_marker:
  "isSlideMarker line \<Longrightarrow> processLine_legacy re_tit st line = Inr (startNewSlide st)"
  by (simp add: processLine_legacy_def)

lemma processLine_legacy_Some:
  "\<not> isSlideMarker line \<Longrightarrow> current st = Some c \<Longrightarrow>
   processLine_legacy re_tit st line =
     Inr (st\<lparr>current := Some (lineEffect_legacy re_tit line c)\<rparr>)"
  by (simp add: processLine_legacy_def lineEffect_legacy_def updCurrent_def)

lemma processLine_legacy_None_keyword:
  "\<not> isSlideMarker line \<Longrightarrow> current st = None \<Longrightarrow> keywordLine_legacy re_tit line \<Longrightarrow>
   processLine_legacy re_tit st line = Inl TypeError"
  by (auto simp: processLine_legacy_def keywordLine_legacy_def updCurrent_def)

lemma processLine_legacy_None_other:
  "\<not> isSlideMarker line \<Longrightarrow> current st = None \<Longrightarrow> \<not> keywordLine_legacy re_tit line \<Longrightarrow>
   processLine_legacy re_tit st line = Inr st"
  by (auto simp: processLine_legacy_def keywordLine_legacy_def updCurrent_def)

subsection \<open>Exceptions\<close>

text \<open>The parser of \<^verbatim>\<open>src/script.js\<close> tests \<^verbatim>\<open>current\<close> before every use: it returns
  slides for every input, and no slide for an input of blank lines.\<close>

lemma parseScript_returns: "\<exists>r. parseScript raw = Inr r"
  by (simp add: parseScript_eq)

lemma parseScript_blank_input:
  "\<forall>l\<in>set (splitLines raw). blank l \<Longrightarrow> parseScript raw = Inr []"
proof -
  assume "\<forall>l\<in>set (splitLines raw). blank l"
  then have "filter (\<lambda>l. l \<noteq> []) (map trim (splitLines raw)) = []"
    by (simp add: filter_empty_conv trim_Nil_iff)
  then show ?thesis by (simp add: parseScript_eq initial_def finish_def)
qed

lemma parseScript_empty_input: "parseScript [] = Inr []"
  by (simp add: parseScript_blank_input blank_def)

text \<open>The legacy parser throws when the first line is a keyword line.\<close>

lemma legacy_keyword_first_throws:
  assumes "\<not> isSlideMarker line" "keywordLine_legacy re_tit line"
  shows "runLines (processLine_legacy re_tit) initial (line # ls) = Inl TypeError"
  using assms by (simp add: processLine_legacy_None_keyword initial_def)

text \<open>
  Claim C1: for every input \<^verbatim>\<open>parseScript\<close> returns a sequence of slides and throws no
  exception; in particular a title line before any slide marker is no failure.
  The parser of \<^verbatim>\<open>src/script.js\<close> does so (\<open>parseScript_returns\<close>). The parser of
  \<^verbatim>\<open>part_000\<close> does not: on the input \<^verbatim>\<open>Titulo: x\<close> the assignment
  \<^verbatim>\<open>current.title = ...\<close> finds \<^verbatim>\<open>current\<close> to be \<^verbatim>\<open>null\<close> and throws a \<^verbatim>\<open>TypeError\<close>.
\<close>

theorem C1_part000_title_before_marker_throws:
  "parseScript_part000 (str ''Titulo: x'') = Inl TypeError \<and>
   parseScript (str ''Titulo: x'') = Inr [emptySlide\<lparr>title := str ''x''\<rparr>]"
  by (simp add: eval_defs cong: let_weak_cong)

subsection \<open>The first two characters of a keyword line\<close>

lemmas canonicalize_numeral = canonicalize_def [of "numeral n" for n]

lemma matchLit_Cons:
  "matchLit (p # ps) s =
     (case s of [] \<Rightarrow> None
      | c # cs \<Rightarrow> if canonicalize p = canonicalize c then matchLit ps cs else None)"
  by (cases s) simp_all

lemma matchLit2:
  "matchLit (p # q # ps) s = Some r \<Longrightarrow> map canonicalize (take 2 s) = [canonicalize p, canonicalize q]"
  by (cases s; cases "tl s") (auto split: if_splits)

lemma marker_prefix: "isSlideMarker line \<Longrightarrow> map canonicalize (take 2 line) = [68, 73]"
  by (auto simp: isSlideMarker_def str_def canonicalize_numeral split: option.splits dest!: matchLit2)

lemma titulo_prefix:
  "reTest re_titulo line \<Longrightarrow> map canonicalize (take 2 line) \<in> {[84, 205], [84, 73]}"
  by (auto simp: reTest_def re_titulo_def str_def canonicalize_numeral split: option.splits dest!: matchLit2)

lemma titulo_accent_prefix:
  "reTest re_titulo_accent line \<Longrightarrow> map canonicalize (take 2 line) = [84, 205]"
  by (auto simp: reTest_def re_titulo_accent_def str_def canonicalize_numeral split: option.splits dest!: matchLit2)

lemma contenido_prefix: "reTest re_contenido line \<Longrightarrow> map canonicalize (take 2 line) = [67, 79]"
  by (auto simp: reTest_def re_contenido_def str_def canonicalize_numeral split: option.splits dest!: matchLit2)

lemma datos_prefix: "reTest re_datos line \<Longrightarrow> map canonicalize (take 2 line) = [68, 65]"
  by (auto simp: reTest_def re_datos_def str_def canonicalize_numeral split: option.splits dest!: matchLit2)

lemma datos_legacy_prefix:
  "reTest re_datos_test_legacy line \<Longrightarrow> map canonicalize (take 2 line) \<in> {[68, 65], [71, 82]}"
  by (auto simp: reTest_def re_datos_test_legacy_def str_def canonicalize_numeral split: option.splits dest!: matchLit2)

lemma descripcion_prefix: "reTest re_descripcion line \<Longrightarrow> map canonicalize (take 2 line) = [68, 69]"
  by (auto simp: reTest_def re_descripcion_def str_def canonicalize_numeral split: option.splits dest!: matchLit2)

lemma adjunto_prefix: "reTest re_adjunto line \<Longrightarrow> map canonicalize (take 2 line) = [65, 68]"
  by (auto simp: reTest_def re_adjunto_def str_def canonicalize_numeral split: option.splits dest!: matchLit2)

lemma datos_line:
  assumes "reTest re_datos line"
  shows "line \<noteq> []" "\<not> isSlideMarker line" "\<not> reTest re_titulo line" "\<not> reTest re_contenido line"
  using assms
  by (auto dest!: datos_prefix marker_prefix titulo_prefix contenido_prefix)

lemma datos_legacy_line:
  assumes "reTest re_datos_test_legacy line"
  shows "line \<noteq> []" "\<not> isSlideMarker line" "\<not> reTest re_titulo line"
    "\<not> reTest re_titulo_accent line" "\<not> reTest re_contenido line"
  using assms
  by (auto dest!: datos_legacy_prefix marker_prefix titulo_prefix titulo_accent_prefix contenido_prefix)

lemma marker_not_Nil: "isSlideMarker line \<Longrightarrow> line \<noteq> []"
  by (auto dest!: marker_prefix)

subsection \<open>Lines of one slide\<close>

lemma foldl_step_no_marker:
  "\<forall>l\<in>set ls. \<not> isSlideMarker l \<Longrightarrow>
   foldl step \<lparr>slides = ss, current = Some c\<rparr> ls =
     \<lparr>slides = ss, current = Some (foldl (\<lambda>c l. lineEffect l c) c ls)\<rparr>"
  by (induction ls arbitrary: c) (simp_all add: step_def cur_def)

lemma step_no_marker:
  "\<not> isSlideMarker l \<Longrightarrow> step st l = \<lparr>slides = slides st, current = Some (lineEffect l (cur st))\<rparr>"
  by (simp add: step_def)

lemma foldl_step_no_marker_first:
  "\<forall>l\<in>set (l0 # ls). \<not> isSlideMarker l \<Longrightarrow>
   foldl step st (l0 # ls) =
     \<lparr>slides = slides st, current = Some (foldl (\<lambda>c l. lineEffect l c) (cur st) (l0 # ls))\<rparr>"
  by (simp add: step_no_marker foldl_step_no_marker)

subsection \<open>Input without slide markers\<close>

lemma lineEffect_plain:
  "plainLine l \<Longrightarrow> lineEffect l c = c\<lparr>content := content c @ fragments 59 l\<rparr>"
  by (simp add: plainLine_def lineEffect_def)

lemma foldl_lineEffect_plain:
  "\<forall>l\<in>set ls. plainLine l \<Longrightarrow>
   foldl (\<lambda>c l. lineEffect l c) c ls = c\<lparr>content := content c @ concat (map (fragments 59) ls)\<rparr>"
  by (induction ls arbitrary: c) (simp_all add: lineEffect_plain)

lemma concat_fragments_kept:
  "concat (map (fragments 59) (filter (\<lambda>l. l \<noteq> []) (map trim ls))) =
   concat (map (\<lambda>l. fragments 59 (trim l)) ls)"
  by (induction ls) (simp_all add: fragments_Nil)

lemma kept_lines_not_Nil:
  "\<exists>l\<in>set ls. \<not> blank l \<Longrightarrow> filter (\<lambda>l. l \<noteq> []) (map trim ls) \<noteq> []"
  by (auto simp: filter_empty_conv trim_Nil_iff)

lemma parseScript_no_marker_single:
  assumes "\<forall>l\<in>set (splitLines raw). \<not> isSlideMarker (trim l)"
    and "\<exists>l\<in>set (splitLines raw). \<not> blank l"
  shows "\<exists>s. parseScript raw = Inr [s]"
proof -
  let ?ls = "filter (\<lambda>l. l \<noteq> []) (map trim (splitLines raw))"
  from assms(2) obtain l0 ls where ls: "?ls = l0 # ls"
    using kept_lines_not_Nil [of "splitLines raw"] by (cases ?ls) auto
  have "\<forall>l\<in>set ?ls. \<not> isSlideMarker l" using assms(1) by auto
  then have "\<forall>l\<in>set (l0 # ls). \<not> isSlideMarker l" unfolding ls .
  then show ?thesis
    unfolding parseScript_eq ls
    by (simp only: foldl_step_no_marker_first) (simp add: finish_def initial_def)
qed

lemma parseScript_plain_lines:
  assumes "\<forall>l\<in>set (splitLines raw). plainLine (trim l)"
    and "\<exists>l\<in>set (splitLines raw). \<not> blank l"
  shows "parseScript raw =
    Inr [emptySlide\<lparr>content := concat (map (\<lambda>l. fragments 59 (trim l)) (splitLines raw))\<rparr>]"
proof -
  let ?ls = "filter (\<lambda>l. l \<noteq> []) (map trim (splitLines raw))"
  from assms(2) obtain l0 ls where ls: "?ls = l0 # ls"
    using kept_lines_not_Nil [of "splitLines raw"] by (cases ?ls) auto
  have plain: "\<forall>l\<in>set ?ls. plainLine l" using assms(1) by auto
  then have "\<forall>l\<in>set ?ls. \<not> isSlideMarker l" by (simp add: plainLine_def)
  then have "foldl step initial (l0 # ls) =
      \<lparr>slides = slides initial,
       current = Some (foldl (\<lambda>c l. lineEffect l c) (cur initial) (l0 # ls))\<rparr>"
    unfolding ls by (rule foldl_step_no_marker_first)
  also have "foldl (\<lambda>c l. lineEffect l c) (cur initial) (l0 # ls) =
      (cur initial)\<lparr>content := content (cur initial) @ concat (map (fragments 59) ?ls)\<rparr>"
    using plain unfolding ls [symmetric] by (rule foldl_lineEffect_plain)
  finally have "foldl step initial ?ls =
      \<lparr>slides = [], current = Some (emptySlide\<lparr>content := concat (map (fragments 59) ?ls)\<rparr>)\<rparr>"
    unfolding ls by (simp add: initial_def cur_def emptySlide_def)
  then show ?thesis
    unfolding parseScript_eq by (simp add: finish_def concat_fragments_kept)
qed

text \<open>
  Claim C2: the parser recognises the keywords of the specification; in particular a
  line that begins with any of the three spellings of the data keyword (\<^verbatim>\<open>Datos:\<close> and
  \<^verbatim>\<open>Grafica:\<close> with and without the accent) sets the graph of the slide and is no content.
  The parser of \<^verbatim>\<open>part_000\<close> does so. The parser of \<^verbatim>\<open>src/script.js\<close> knows \<^verbatim>\<open>Datos:\<close>
  only: a line \<^verbatim>\<open>Grafica: ...\<close> becomes content, split at the semicolons, and the graph
  stays \<^verbatim>\<open>null\<close> (for every such line: \<open>processLine_grafica\<close> below).
\<close>

theorem C2_script_js_grafica_is_content:
  "parseScript (str ''Diapositiva 1\<newline>Grafica: Labels: a; Valores: 1'') =
     Inr [emptySlide\<lparr>content := [str ''Grafica: Labels: a'', str ''Valores: 1'']\<rparr>] \<and>
   parseScript_part000 (str ''Diapositiva 1\<newline>Grafica: Labels: a; Valores: 1'') =
     Inr [emptySlide\<lparr>graph := Some \<lparr>labels = [str ''a''], values' = [Finite 1]\<rparr>\<rparr>]"
  by (simp add: eval_defs cong: let_weak_cong)

text \<open>
  Claim C3: an input without slide markers and with a line that is not blank gives one
  slide, whose content has the fragments of the lines; no line is lost for lack of a
  current slide.
  The parser of \<^verbatim>\<open>src/script.js\<close> does so (\<open>parseScript_no_marker_single\<close>,
  \<open>parseScript_plain_lines\<close>). The parser of \<^verbatim>\<open>part_000\<close> skips a line of content while
  \<^verbatim>\<open>current\<close> is \<^verbatim>\<open>null\<close> and returns no slide.
\<close>

theorem C3_part000_loses_lines_before_marker:
  "parseScript_part000 (str ''hola; mundo'') = Inr [] \<and>
   parseScript (str ''hola; mundo'') = Inr [emptySlide\<lparr>content := [str ''hola'', str ''mundo'']\<rparr>]"
  by (simp add: eval_defs cong: let_weak_cong)

subsection \<open>Spellings of the title\<close>

lemma lineEffect_titulo:
  "reTest re_titulo line \<Longrightarrow> title (lineEffect line c) = trim (reStrip re_titulo line)"
  by (simp add: lineEffect_def)

lemma titulo_spellings:
  "map (\<lambda>l. (reTest re_titulo l, trim (reStrip re_titulo l)))
     [str ''TITULO: x'', 84 # 237 # str ''tulo: x'', str ''titulo: x'', 84 # 205 # str ''TULO: x''] =
   [(True, str ''x''), (True, str ''x''), (True, str ''x''), (True, str ''x'')]"
  by (simp add: eval_defs)

lemma parseScript_titulo_spellings:
  "parseScript (str ''Diapositiva 1\<newline>TITULO: x'') = Inr [emptySlide\<lparr>title := str ''x''\<rparr>]"
  "parseScript (str ''Diapositiva 1\<newline>T'' @ 237 # str ''tulo: x'') = Inr [emptySlide\<lparr>title := str ''x''\<rparr>]"
  "parseScript (str ''Diapositiva 1\<newline>titulo: x'') = Inr [emptySlide\<lparr>title := str ''x''\<rparr>]"
  "parseScript_part000 (str ''Diapositiva 1\<newline>titulo: x'') = Inr [emptySlide\<lparr>title := str ''x''\<rparr>]"
  by (simp_all add: eval_defs cong: let_weak_cong)

text \<open>
  Claim C4: the title keyword in any letter case, with or without the accent, sets the
  title: each of the lines \<^verbatim>\<open>TITULO: x\<close>, \<^verbatim>\<open>Titulo: x\<close> with the accent and \<^verbatim>\<open>titulo: x\<close>
  gives the title \<^verbatim>\<open>x\<close>.
  The parsers of \<^verbatim>\<open>src/script.js\<close> and \<^verbatim>\<open>part_000\<close> do so (\<open>parseScript_titulo_spellings\<close>).
  The parser of the test script in \<^verbatim>\<open>part_001\<close> tests for the accented spelling only: the
  line \<^verbatim>\<open>titulo: x\<close> leaves the title empty and becomes content (for every such line:
  \<open>processLine_part001_titulo_plain\<close> below). The script that this file parses spells
  its titles without the accent.
\<close>

theorem C4_part001_unaccented_title_is_content:
  "parseScript_part001 (str ''Diapositiva 1\<newline>titulo: x'') =
     Inr [emptySlide\<lparr>content := [str ''titulo: x'']\<rparr>] \<and>
   parseScript_part001 (str ''Diapositiva 1\<newline>Titulo: Presentacion de prueba'') =
     Inr [emptySlide\<lparr>content := [str ''Titulo: Presentacion de prueba'']\<rparr>]"
  by (simp add: eval_defs cong: let_weak_cong)

subsection \<open>No blank fragment\<close>

lemma slideClean_emptySlide: "slideClean emptySlide"
  by (simp add: slideClean_def emptySlide_def)

lemma stateClean_initial: "stateClean initial"
  by (simp add: stateClean_def initial_def)

lemma stateClean_startNewSlide: "stateClean st \<Longrightarrow> stateClean (startNewSlide st)"
  by (auto simp: stateClean_def startNewSlide_def slideClean_emptySlide split: option.splits)

lemma stateClean_finish: "stateClean st \<Longrightarrow> \<forall>s\<in>set (finish st). slideClean s"
  by (auto simp: stateClean_def finish_def split: option.splits)

lemma applySection_labels:
  "\<forall>x\<in>set (labels g). \<not> blank x \<Longrightarrow> \<forall>x\<in>set (labels (applySection g sec)). \<not> blank x"
  by (auto simp: applySection_def Let_def dest: fragments_not_blank)

lemma foldl_applySection_labels:
  "\<forall>x\<in>set (labels g). \<not> blank x \<Longrightarrow>
   \<forall>x\<in>set (labels (foldl applySection g secs)). \<not> blank x"
proof (induction secs arbitrary: g)
  case Nil
  then show ?case by simp
next
  case (Cons sec secs)
  from Cons.prems have "\<forall>x\<in>set (labels (applySection g sec)). \<not> blank x"
    by (rule applySection_labels)
  then show ?case using Cons.IH by simp
qed

lemma datosGraph_labels: "\<forall>x\<in>set (labels (datosGraph line)). \<not> blank x"
  unfolding datosGraph_def by (rule foldl_applySection_labels) (simp add: emptyGraph_def)

lemma applySection_legacy_labels:
  "\<forall>x\<in>set (labels g). \<not> blank x \<Longrightarrow>
   \<forall>x\<in>set (labels (applySection_legacy g sec)). \<not> blank x"
  by (auto simp: applySection_legacy_def dest: fragments_not_blank)

lemma foldl_applySection_legacy_labels:
  "\<forall>x\<in>set (labels g). \<not> blank x \<Longrightarrow>
   \<forall>x\<in>set (labels (foldl applySection_legacy g secs)). \<not> blank x"
proof (induction secs arbitrary: g)
  case Nil
  then show ?case by simp
next
  case (Cons sec secs)
  from Cons.prems have "\<forall>x\<in>set (labels (applySection_legacy g sec)). \<not> blank x"
    by (rule applySection_legacy_labels)
  then show ?case using Cons.IH by simp
qed

lemma datosGraph_legacy_labels: "\<forall>x\<in>set (labels (datosGraph_legacy line)). \<not> blank x"
  unfolding datosGraph_legacy_def
  by (rule foldl_applySection_legacy_labels) (simp add: emptyGraph_def)

lemma slideClean_lineEffect: "slideClean c \<Longrightarrow> slideClean (lineEffect line c)"
  using datosGraph_labels [of line]
  by (auto simp: slideClean_def lineEffect_def dest: fragments_not_blank)

lemma slideClean_lineEffect_legacy: "slideClean c \<Longrightarrow> slideClean (lineEffect_legacy re_tit line c)"
  using datosGraph_legacy_labels [of line]
  by (auto simp: slideClean_def lineEffect_legacy_def dest: fragments_not_blank)

lemma stateClean_step: "stateClean st \<Longrightarrow> stateClean (step st line)"
proof (cases "isSlideMarker line")
  case True
  assume "stateClean st"
  with True show ?thesis by (simp add: step_def stateClean_startNewSlide)
next
  case False
  assume st: "stateClean st"
  then have "slideClean (cur st)"
    by (auto simp: stateClean_def cur_def slideClean_emptySlide split: option.splits)
  then have "slideClean (lineEffect line (cur st))" by (rule slideClean_lineEffect)
  with st False show ?thesis by (simp add: step_def stateClean_def)
qed

lemma stateClean_foldl_step: "stateClean st \<Longrightarrow> stateClean (foldl step st ls)"
  by (induction ls arbitrary: st) (simp_all add: stateClean_step)

lemma stateClean_processLine_legacy:
  assumes "stateClean st" "processLine_legacy re_tit st line = Inr st'"
  shows "stateClean st'"
proof (cases "isSlideMarker line")
  case True
  with assms show ?thesis by (auto simp: processLine_legacy_marker stateClean_startNewSlide)
next
  case False
  show ?thesis
  proof (cases "current st")
    case None
    with False assms show ?thesis
      by (cases "keywordLine_legacy re_tit line")
         (simp_all add: processLine_legacy_None_keyword processLine_legacy_None_other)
  next
    case (Some c)
    with assms(1) have "slideClean (lineEffect_legacy re_tit line c)"
      by (simp add: stateClean_def slideClean_lineEffect_legacy)
    with False Some assms show ?thesis
      by (auto simp: processLine_legacy_Some stateClean_def)
  qed
qed

lemma stateClean_runLines_legacy:
  "stateClean st \<Longrightarrow> runLines (processLine_legacy re_tit) st ls = Inr st' \<Longrightarrow> stateClean st'"
proof (induction ls arbitrary: st)
  case Nil
  then show ?case by simp
next
  case (Cons l ls)
  show ?case
  proof (cases "processLine_legacy re_tit st l")
    case (Inl e)
    with Cons.prems show ?thesis by simp
  next
    case (Inr st1)
    with Cons.prems(1) have "stateClean st1" by (rule stateClean_processLine_legacy)
    moreover from Inr Cons.prems(2) have "runLines (processLine_legacy re_tit) st1 ls = Inr st'"
      by simp
    ultimately show ?thesis by (rule Cons.IH)
  qed
qed

lemma parseScript_legacy_Inr:
  "parseScript_legacy re_tit raw = Inr ss \<Longrightarrow>
   \<exists>st'. runLines (processLine_legacy re_tit) initial
           (filter (\<lambda>l. length l > 0) (map trim (splitLines raw))) = Inr st' \<and> ss = finish st'"
  unfolding parseScript_legacy_def
  by (cases "runLines (processLine_legacy re_tit) initial
           (filter (\<lambda>l. length l > 0) (map trim (splitLines raw)))") auto

text \<open>
  Claim C9: in every slide that \<^verbatim>\<open>parseScript\<close> returns, no element of \<^verbatim>\<open>content\<close>, of
  \<^verbatim>\<open>graph.labels\<close> or of \<^verbatim>\<open>attachments\<close> is an empty string or a string of white space
  only. It holds for the parser of \<^verbatim>\<open>src/script.js\<close>, which returns slides for every
  input, and for whatever the parsers of \<^verbatim>\<open>part_000\<close> and \<^verbatim>\<open>part_001\<close> return.
\<close>

theorem C9_no_blank_fragment:
  "(\<exists>ss. parseScript raw = Inr ss \<and>
      (\<forall>s\<in>set ss.
         (\<forall>x\<in>set (content s). \<not> blank x) \<and>
         (\<forall>g. graph s = Some g \<longrightarrow> (\<forall>x\<in>set (labels g). \<not> blank x)) \<and>
         (\<forall>x\<in>set (attachments s). \<not> blank x))) \<and>
   (\<forall>ss. parseScript_part000 raw = Inr ss \<or> parseScript_part001 raw = Inr ss \<longrightarrow>
      (\<forall>s\<in>set ss.
         (\<forall>x\<in>set (content s). \<not> blank x) \<and>
         (\<forall>g. graph s = Some g \<longrightarrow> (\<forall>x\<in>set (labels g). \<not> blank x)) \<and>
         (\<forall>x\<in>set (attachments s). \<not> blank x)))"
proof -
  have new: "\<forall>s\<in>set (finish (foldl step initial ls)). slideClean s" for ls
    by (intro stateClean_finish stateClean_foldl_step stateClean_initial)
  have old: "\<forall>s\<in>set ss. slideClean s" if "parseScript_legacy re_tit raw = Inr ss" for re_tit ss
  proof -
    from that obtain st' where
      run: "runLines (processLine_legacy re_tit) initial
              (filter (\<lambda>l. length l > 0) (map trim (splitLines raw))) = Inr st'"
      and ss: "ss = finish st'"
      using parseScript_legacy_Inr by blast
    from stateClean_initial run have "stateClean st'" by (rule stateClean_runLines_legacy)
    then show ?thesis unfolding ss by (rule stateClean_finish)
  qed
  show ?thesis
    using new old
    unfolding parseScript_eq parseScript_part000_def parseScript_part001_def slideClean_def
    by blast
qed

theorem C9_no_blank_fragment_witness:
  "parseScript (str ''Diapositiva 1\<newline>Contenido: a; ;b\<newline>Datos: Labels: p, ,q\<newline>Adjunto: f, ,g'') =
     Inr [\<lparr>title = [], content = [str ''a'', str ''b''],
           graph = Some \<lparr>labels = [str ''p'', str ''q''], values' = []\<rparr>,
           description = [], attachments = [str ''f'', str ''g'']\<rparr>] \<and>
   parseScript_part000 (str ''Diapositiva 1\<newline>Contenido: a; ;b\<newline>Datos: Labels: p, ,q\<newline>Adjunto: f, ,g'') =
     Inr [\<lparr>title = [], content = [str ''a'', str ''b''],
           graph = Some \<lparr>labels = [str ''p'', str ''q''], values' = []\<rparr>,
           description = [], attachments = [str ''f'', str ''g'']\<rparr>] \<and>
   \<not> blank (str ''a'') \<and> \<not> blank (str ''b'') \<and> \<not> blank (str ''p'') \<and> \<not> blank (str ''q'') \<and>
   \<not> blank (str ''f'') \<and> \<not> blank (str ''g'')"
  using C9_no_blank_fragment
    [of "str ''Diapositiva 1\<newline>Contenido: a; ;b\<newline>Datos: Labels: p, ,q\<newline>Adjunto: f, ,g''"]
  by (simp add: eval_defs blank_def cong: let_weak_cong)

subsection \<open>Blank lines\<close>

lemma kept_lines_length:
  "filter (\<lambda>l. length l > 0) (map trim ls) = filter (\<lambda>l. l \<noteq> []) (map trim ls)"
  by simp

lemma parseScript_legacy_removeBlankLines:
  "parseScript_legacy re_tit (removeBlankLines raw) = parseScript_legacy re_tit raw"
  unfolding parseScript_legacy_def kept_lines_length kept_lines_removeBlankLines ..

lemma parseScript_legacy_kept_lines:
  "filter (\<lambda>l. l \<noteq> []) (map trim (splitLines raw')) =
   filter (\<lambda>l. l \<noteq> []) (map trim (splitLines raw)) \<Longrightarrow>
   parseScript_legacy re_tit raw' = parseScript_legacy re_tit raw"
  unfolding parseScript_legacy_def kept_lines_length by simp

text \<open>
  Claim C7: \<^verbatim>\<open>parseScript\<close> gives the same result for an input and for the input without
  its blank lines. It holds for the three parsers, for the exception of the legacy ones
  as well; more generally, two inputs with the same trimmed, non-empty lines have the same
  result, wherever their blank lines are and whatever ends their lines.
\<close>

theorem C7_blank_lines_invariance:
  "parseScript (removeBlankLines raw) = parseScript raw \<and>
   parseScript_part000 (removeBlankLines raw) = parseScript_part000 raw \<and>
   parseScript_part001 (removeBlankLines raw) = parseScript_part001 raw \<and>
   (filter (\<lambda>l. l \<noteq> []) (map trim (splitLines raw')) =
      filter (\<lambda>l. l \<noteq> []) (map trim (splitLines raw)) \<longrightarrow>
    parseScript raw' = parseScript raw \<and>
    parseScript_part000 raw' = parseScript_part000 raw \<and>
    parseScript_part001 raw' = parseScript_part001 raw)"
proof (intro conjI impI)
  show "parseScript (removeBlankLines raw) = parseScript raw"
    by (simp add: parseScript_eq kept_lines_removeBlankLines)
  show "parseScript_part000 (removeBlankLines raw) = parseScript_part000 raw"
    unfolding parseScript_part000_def by (rule parseScript_legacy_removeBlankLines)
  show "parseScript_part001 (removeBlankLines raw) = parseScript_part001 raw"
    unfolding parseScript_part001_def by (rule parseScript_legacy_removeBlankLines)
next
  assume same: "filter (\<lambda>l. l \<noteq> []) (map trim (splitLines raw')) =
      filter (\<lambda>l. l \<noteq> []) (map trim (splitLines raw))"
  then show "parseScript raw' = parseScript raw"
    by (simp only: parseScript_eq)
  from same show "parseScript_part000 raw' = parseScript_part000 raw"
    unfolding parseScript_part000_def by (rule parseScript_legacy_kept_lines)
  from same show "parseScript_part001 raw' = parseScript_part001 raw"
    unfolding parseScript_part001_def by (rule parseScript_legacy_kept_lines)
qed

theorem C7_blank_lines_invariance_witness:
  "removeBlankLines (str ''Diapositiva 1\<newline>Titulo: A\<newline>\<newline>  \<newline>Contenido: z'') =
     str ''Diapositiva 1\<newline>Titulo: A\<newline>Contenido: z'' \<and>
   parseScript (str ''Diapositiva 1\<newline>Titulo: A\<newline>\<newline>  \<newline>Contenido: z'') =
     parseScript (str ''Diapositiva 1\<newline>Titulo: A\<newline>Contenido: z'')"
proof -
  have "removeBlankLines (str ''Diapositiva 1\<newline>Titulo: A\<newline>\<newline>  \<newline>Contenido: z'') =
     str ''Diapositiva 1\<newline>Titulo: A\<newline>Contenido: z''"
    by (simp add: removeBlankLines_def str_def trim_def isWhiteSpace_def)
  then show ?thesis
    using C7_blank_lines_invariance
      [of "str ''Diapositiva 1\<newline>Titulo: A\<newline>\<newline>  \<newline>Contenido: z''"
          "str ''Diapositiva 1\<newline>Titulo: A\<newline>\<newline>  \<newline>Contenido: z''"]
    by simp
qed

subsection \<open>Slide markers\<close>

lemma runLines_append:
  "runLines f st (xs @ ys) =
     (case runLines f st xs of Inl e \<Rightarrow> Inl e | Inr st' \<Rightarrow> runLines f st' ys)"
proof (induction xs arbitrary: st)
  case Nil
  show ?case by simp
next
  case (Cons x xs)
  show ?case by (cases "f st x") (simp_all add: Cons.IH)
qed

lemma step_marker: "isSlideMarker line \<Longrightarrow> step st line = startNewSlide st"
  by (simp add: step_def)

lemma foldl_step_marker_line:
  assumes "isSlideMarker (trim l)" "isSlideMarker (trim l')"
  shows "foldl step st (filter (\<lambda>l. l \<noteq> []) (map trim (pre @ l # post))) =
         foldl step st (filter (\<lambda>l. l \<noteq> []) (map trim (pre @ l' # post)))"
  using assms by (simp add: marker_not_Nil step_marker)

text \<open>
  Claim C10: a line whose trimmed form is a slide marker pushes the current slide, if
  there is one, and starts a slide with the default fields; the rest of the line, the
  number and the text after it, has no effect: the new state does not depend on the
  line, and another marker line in its place gives the same run.
\<close>

theorem C10_marker_remainder_discarded:
  assumes "isSlideMarker (trim l)" and "isSlideMarker (trim l')"
  shows "processLine st l =
           Inr \<lparr>slides = (case current st of None \<Rightarrow> slides st | Some c \<Rightarrow> slides st @ [c]),
                current = Some \<lparr>title = [], content = [], graph = None, description = [],
                                attachments = []\<rparr>\<rparr> \<and>
         processLine_legacy re_tit st (trim l) =
           Inr \<lparr>slides = (case current st of None \<Rightarrow> slides st | Some c \<Rightarrow> slides st @ [c]),
                current = Some \<lparr>title = [], content = [], graph = None, description = [],
                                attachments = []\<rparr>\<rparr> \<and>
         runLines processLine st (pre @ l # post) = runLines processLine st (pre @ l' # post) \<and>
         runLines (processLine_legacy re_tit) st (pre' @ trim l # post') =
           runLines (processLine_legacy re_tit) st (pre' @ trim l' # post')"
proof -
  from assms(1) have ne: "trim l \<noteq> []" by (rule marker_not_Nil)
  have 1: "processLine st l = Inr (startNewSlide st)"
    using assms(1) ne by (simp add: processLine_step step_marker)
  have 2: "processLine_legacy re_tit st (trim l) = Inr (startNewSlide st)"
    using assms(1) by (rule processLine_legacy_marker)
  have 3: "runLines processLine st (pre @ l # post) = runLines processLine st (pre @ l' # post)"
    using foldl_step_marker_line [OF assms, of st pre post]
    by (simp only: runLines_processLine)
  have 4: "runLines (processLine_legacy re_tit) st (pre' @ trim l # post') =
           runLines (processLine_legacy re_tit) st (pre' @ trim l' # post')"
  proof (cases "runLines (processLine_legacy re_tit) st pre'")
    case (Inl e)
    then show ?thesis by (simp add: runLines_append)
  next
    case (Inr st1)
    then show ?thesis using assms by (simp add: runLines_append processLine_legacy_marker)
  qed
  have 5: "startNewSlide st =
      \<lparr>slides = (case current st of None \<Rightarrow> slides st | Some c \<Rightarrow> slides st @ [c]),
       current = Some \<lparr>title = [], content = [], graph = None, description = [],
                       attachments = []\<rparr>\<rparr>"
    by (simp add: startNewSlide_def emptySlide_def)
  from 1 2 3 4 show ?thesis unfolding 5 by (intro conjI)
qed

theorem C10_marker_remainder_discarded_witness:
  "isSlideMarker (trim (str ''  Diapositiva 3 Introducci'' @ 243 # str ''n'')) \<and>
   isSlideMarker (trim (str ''diapositiva  12'')) \<and>
   processLine \<lparr>slides = [], current = Some (emptySlide\<lparr>title := str ''A''\<rparr>)\<rparr>
       (str ''  Diapositiva 3 Introducci'' @ 243 # str ''n'') =
     Inr \<lparr>slides = [emptySlide\<lparr>title := str ''A''\<rparr>], current = Some emptySlide\<rparr>"
proof -
  have m: "isSlideMarker (trim (str ''  Diapositiva 3 Introducci'' @ 243 # str ''n''))"
    "isSlideMarker (trim (str ''diapositiva  12''))"
    by (simp_all add: eval_defs)
  show ?thesis
    using m C10_marker_remainder_discarded [OF m,
        of "\<lparr>slides = [], current = Some (emptySlide\<lparr>title := str ''A''\<rparr>)\<rparr>"]
    by (simp add: emptySlide_def)
qed

subsection \<open>Data lines\<close>

lemma applySection_no_match:
  "\<not> reTest re_labels (trim sec) \<Longrightarrow> \<not> reTest re_valores (trim sec) \<Longrightarrow> applySection g sec = g"
  by (simp add: applySection_def Let_def)

lemma foldl_applySection_no_match:
  "\<forall>sec\<in>set secs. \<not> reTest re_labels (trim sec) \<and> \<not> reTest re_valores (trim sec) \<Longrightarrow>
   foldl applySection g secs = g"
  by (induction secs) (simp_all add: applySection_no_match)

lemma lineEffect_datos:
  "reTest re_datos line \<Longrightarrow> graph (lineEffect line c) = Some (datosGraph line)"
  by (simp add: lineEffect_def datos_line)

lemma lineEffect_not_datos:
  "\<not> reTest re_datos line \<Longrightarrow> graph (lineEffect line c) = graph c"
  by (simp add: lineEffect_def)

lemma lineEffect_legacy_datos:
  "reTest re_datos_test_legacy line \<Longrightarrow> re_tit \<in> {re_titulo, re_titulo_accent} \<Longrightarrow>
   graph (lineEffect_legacy re_tit line c) = Some (datosGraph_legacy line)"
  by (auto simp: lineEffect_legacy_def datos_legacy_line)

lemma lineEffect_legacy_not_datos:
  "\<not> reTest re_datos_test_legacy line \<Longrightarrow> graph (lineEffect_legacy re_tit line c) = graph c"
  by (simp add: lineEffect_legacy_def)

lemma processLine_datos:
  assumes "reTest re_datos (trim l)"
  shows "processLine st l =
    Inr \<lparr>slides = slides st, current = Some (lineEffect (trim l) (cur st))\<rparr>"
  using assms by (simp add: processLine_step datos_line step_no_marker)

lemma processLine_legacy_datos:
  assumes "reTest re_datos_test_legacy line" "current st = Some c0"
  shows "processLine_legacy re_tit st line =
    Inr (st\<lparr>current := Some (lineEffect_legacy re_tit line c0)\<rparr>)"
  using assms by (simp add: processLine_legacy_Some datos_legacy_line)

text \<open>In \<^verbatim>\<open>src/script.js\<close> a data line in which no section passes the test of the labels
  or of the values prefix, colon included, sets the graph to a record of two empty lists,
  and a line that is no data line and no slide marker leaves \<^verbatim>\<open>graph\<close> as it is, \<^verbatim>\<open>null\<close>
  in a new slide.\<close>

lemma processLine_datos_without_sections:
  assumes "reTest re_datos (trim l)"
    and "\<forall>sec\<in>set (splitOn 59 (trim (reStrip re_datos (trim l)))).
           \<not> reTest re_labels (trim sec) \<and> \<not> reTest re_valores (trim sec)"
  shows "\<exists>st' c. processLine st l = Inr st' \<and> current st' = Some c \<and>
           graph c = Some \<lparr>labels = [], values' = []\<rparr>"
proof -
  from assms(2) have "datosGraph (trim l) = emptyGraph"
    unfolding datosGraph_def by (rule foldl_applySection_no_match)
  with assms(1) show ?thesis
    by (simp add: processLine_datos lineEffect_datos emptyGraph_def)
qed

lemma processLine_not_datos_keeps_graph:
  assumes "trim l \<noteq> []" "\<not> isSlideMarker (trim l)" "\<not> reTest re_datos (trim l)"
  shows "\<exists>st' c. processLine st l = Inr st' \<and> current st' = Some c \<and>
           graph c = (case current st of None \<Rightarrow> None | Some c1 \<Rightarrow> graph c1)"
proof -
  have "graph (cur st) = (case current st of None \<Rightarrow> None | Some c1 \<Rightarrow> graph c1)"
    by (simp add: cur_def emptySlide_def split: option.splits)
  with assms show ?thesis
    by (simp add: processLine_step step_no_marker lineEffect_not_datos)
qed

text \<open>
  Claim C8: a data line in which no section matches the prefixes of labels or of values
  sets the graph of the slide to a record of two empty lists, which a consumer can tell
  from the \<^verbatim>\<open>null\<close> of a slide without a data line.
  The parser of \<^verbatim>\<open>src/script.js\<close> does so (\<open>processLine_datos_without_sections\<close>). The
  parsers of \<^verbatim>\<open>part_000\<close> and \<^verbatim>\<open>part_001\<close> test a section with \<^verbatim>\<open>/^labels?/i\<close> and
  \<^verbatim>\<open>/^(valores?|values?)/i\<close>, without the colon that their replacements and the tests of
  \<^verbatim>\<open>src/script.js\<close> have. The section \<^verbatim>\<open>Labelsfoo: a, b\<close> matches no prefix with its colon,
  and yet it fills the labels, its own first words among them; the section
  \<^verbatim>\<open>Valores 1, 2\<close> fills the values likewise.
\<close>

theorem C8_part000_section_without_colon_fills_graph:
  "\<not> reTest re_labels_legacy (str ''Labelsfoo: a, b'') \<and>
   \<not> reTest re_valores (str ''Labelsfoo: a, b'') \<and>
   parseScript_part000 (str ''Diapositiva 1\<newline>Datos: Labelsfoo: a, b'') =
     Inr [emptySlide\<lparr>graph := Some \<lparr>labels = [str ''Labelsfoo: a'', str ''b''], values' = []\<rparr>\<rparr>] \<and>
   parseScript (str ''Diapositiva 1\<newline>Datos: Labelsfoo: a, b'') =
     Inr [emptySlide\<lparr>graph := Some \<lparr>labels = [], values' = []\<rparr>\<rparr>] \<and>
   \<not> reTest re_labels_legacy (str ''Valores 1, 2'') \<and>
   \<not> reTest re_valores (str ''Valores 1, 2'') \<and>
   parseScript_part000 (str ''Diapositiva 1\<newline>Datos: Valores 1, 2'') =
     Inr [emptySlide\<lparr>graph := Some \<lparr>labels = [], values' = [Finite 2]\<rparr>\<rparr>] \<and>
   parseScript (str ''Diapositiva 1\<newline>Datos: Valores 1, 2'') =
     Inr [emptySlide\<lparr>graph := Some \<lparr>labels = [], values' = []\<rparr>\<rparr>]"
  by (simp add: eval_defs cong: let_weak_cong)

subsection \<open>The last data line\<close>

lemma foldl_lineEffect_not_datos:
  "\<forall>l\<in>set ls. \<not> reTest re_datos l \<Longrightarrow>
   graph (foldl (\<lambda>c l. lineEffect l c) c ls) = graph c"
  by (induction ls arbitrary: c) (simp_all add: lineEffect_not_datos)

lemma runLines_legacy_not_datos:
  assumes "current st = Some c"
    and "\<forall>l\<in>set ls. \<not> isSlideMarker l \<and> \<not> reTest re_datos_test_legacy l"
  shows "\<exists>st' c'. runLines (processLine_legacy re_tit) st ls = Inr st' \<and>
           current st' = Some c' \<and> graph c' = graph c"
  using assms
proof (induction ls arbitrary: st c)
  case Nil
  then show ?case by simp
next
  case (Cons l ls)
  let ?st1 = "st\<lparr>current := Some (lineEffect_legacy re_tit l c)\<rparr>"
  from Cons.prems have 1: "processLine_legacy re_tit st l = Inr ?st1"
    by (simp add: processLine_legacy_Some)
  from Cons.prems have 2: "graph (lineEffect_legacy re_tit l c) = graph c"
    by (simp add: lineEffect_legacy_not_datos)
  have "\<exists>st' c'. runLines (processLine_legacy re_tit) ?st1 ls = Inr st' \<and>
           current st' = Some c' \<and> graph c' = graph (lineEffect_legacy re_tit l c)"
    using Cons.prems(2) by (intro Cons.IH) simp_all
  with 1 2 show ?case by simp
qed

text \<open>
  Claim C5: where a slide has two or more data lines, its graph is the one of the last
  data line: a new record of two empty lists, filled from the sections of that line, put
  in the place of the graph there was. In the statement \<open>d\<close> is a data line, the lines
  \<open>post\<close> after it are neither slide markers nor data lines, and the lines \<open>pre\<close> before it
  are any lines, earlier data lines of the slide among them. The graph of the current
  slide after these lines is a function of \<open>d\<close> alone.
\<close>

theorem C5_last_data_line_determines_graph:
  "(reTest re_datos (trim d) \<and>
    (\<forall>l\<in>set post. \<not> isSlideMarker (trim l) \<and> \<not> reTest re_datos (trim l)) \<longrightarrow>
    (\<exists>st' c. runLines processLine st (pre @ d # post) = Inr st' \<and> current st' = Some c \<and>
       graph c = Some (foldl applySection \<lparr>labels = [], values' = []\<rparr>
                         (splitOn 59 (trim (reStrip re_datos (trim d))))))) \<and>
   (reTest re_datos_test_legacy d' \<and> re_tit \<in> {re_titulo, re_titulo_accent} \<and>
    (\<forall>l\<in>set post'. \<not> isSlideMarker l \<and> \<not> reTest re_datos_test_legacy l) \<and>
    runLines (processLine_legacy re_tit) st (pre' @ d' # post') = Inr st'' \<longrightarrow>
    (\<exists>c. current st'' = Some c \<and>
       graph c = Some (foldl applySection_legacy \<lparr>labels = [], values' = []\<rparr>
                         (map trim (splitOn 59 (trim (reStrip re_datos_legacy d')))))))"
proof (intro conjI impI)
  assume a: "reTest re_datos (trim d) \<and>
    (\<forall>l\<in>set post. \<not> isSlideMarker (trim l) \<and> \<not> reTest re_datos (trim l))"
  let ?kept = "\<lambda>ls. filter (\<lambda>l. l \<noteq> []) (map trim ls)"
  define st1 where "st1 = foldl step st (?kept pre)"
  define c1 where "c1 = lineEffect (trim d) (cur st1)"
  from a have d: "trim d \<noteq> []" "\<not> isSlideMarker (trim d)"
    by (simp_all add: datos_line)
  from a have post: "\<forall>l\<in>set (?kept post). \<not> isSlideMarker l"
    and post': "\<forall>l\<in>set (?kept post). \<not> reTest re_datos l"
    by auto
  have "foldl step st (?kept (pre @ d # post)) =
        foldl step \<lparr>slides = slides st1, current = Some c1\<rparr> (?kept post)"
    using d by (simp add: st1_def c1_def step_no_marker)
  also have "\<dots> = \<lparr>slides = slides st1,
        current = Some (foldl (\<lambda>c l. lineEffect l c) c1 (?kept post))\<rparr>"
    using post by (rule foldl_step_no_marker)
  finally have run: "runLines processLine st (pre @ d # post) =
      Inr \<lparr>slides = slides st1, current = Some (foldl (\<lambda>c l. lineEffect l c) c1 (?kept post))\<rparr>"
    by (simp only: runLines_processLine)
  have "graph (foldl (\<lambda>c l. lineEffect l c) c1 (?kept post)) = graph c1"
    using post' by (rule foldl_lineEffect_not_datos)
  also have "\<dots> = Some (datosGraph (trim d))"
    using a unfolding c1_def by (simp add: lineEffect_datos)
  finally show "\<exists>st' c. runLines processLine st (pre @ d # post) = Inr st' \<and>
      current st' = Some c \<and>
      graph c = Some (foldl applySection \<lparr>labels = [], values' = []\<rparr>
                        (splitOn 59 (trim (reStrip re_datos (trim d)))))"
    unfolding run by (simp add: datosGraph_def emptyGraph_def)
next
  assume a: "reTest re_datos_test_legacy d' \<and> re_tit \<in> {re_titulo, re_titulo_accent} \<and>
    (\<forall>l\<in>set post'. \<not> isSlideMarker l \<and> \<not> reTest re_datos_test_legacy l) \<and>
    runLines (processLine_legacy re_tit) st (pre' @ d' # post') = Inr st''"
  then have run: "runLines (processLine_legacy re_tit) st (pre' @ d' # post') = Inr st''"
    by simp
  then obtain st1 where 1: "runLines (processLine_legacy re_tit) st pre' = Inr st1"
    by (cases "runLines (processLine_legacy re_tit) st pre'") (simp_all add: runLines_append)
  with run obtain st2 where 2: "processLine_legacy re_tit st1 d' = Inr st2"
    and 3: "runLines (processLine_legacy re_tit) st2 post' = Inr st''"
    by (cases "processLine_legacy re_tit st1 d'") (simp_all add: runLines_append)
  from a have kw: "keywordLine_legacy re_tit d'" "\<not> isSlideMarker d'"
    by (simp_all add: keywordLine_legacy_def datos_legacy_line)
  obtain c1 where c1: "current st1 = Some c1"
    using 2 kw by (cases "current st1") (simp_all add: processLine_legacy_None_keyword)
  with 2 a have st2: "st2 = st1\<lparr>current := Some (lineEffect_legacy re_tit d' c1)\<rparr>"
    by (simp add: processLine_legacy_datos)
  then have "current st2 = Some (lineEffect_legacy re_tit d' c1)" by simp
  moreover from a have "\<forall>l\<in>set post'. \<not> isSlideMarker l \<and> \<not> reTest re_datos_test_legacy l"
    by simp
  ultimately obtain st3 c3 where "runLines (processLine_legacy re_tit) st2 post' = Inr st3"
    "current st3 = Some c3" "graph c3 = graph (lineEffect_legacy re_tit d' c1)"
    using runLines_legacy_not_datos by blast
  moreover from a have "graph (lineEffect_legacy re_tit d' c1) = Some (datosGraph_legacy d')"
    by (intro lineEffect_legacy_datos) simp_all
  ultimately show "\<exists>c. current st'' = Some c \<and>
       graph c = Some (foldl applySection_legacy \<lparr>labels = [], values' = []\<rparr>
                         (map trim (splitOn 59 (trim (reStrip re_datos_legacy d')))))"
    using 3 by (simp add: datosGraph_legacy_def emptyGraph_def)
qed

theorem C5_last_data_line_determines_graph_witness:
  "reTest re_datos (trim (str ''Datos: Labels: b; Valores: 2'')) \<and>
   runLines processLine initial
     [str ''Diapositiva 1'', str ''Datos: Labels: a, c; Valores: 1, 5'',
      str ''Datos: Labels: b; Valores: 2'', str ''Contenido: z''] =
     Inr \<lparr>slides = [],
          current = Some (emptySlide\<lparr>content := [str ''z''],
                      graph := Some \<lparr>labels = [str ''b''], values' = [Finite 2]\<rparr>\<rparr>)\<rparr> \<and>
   runLines (processLine_legacy re_titulo) initial
     [str ''Diapositiva 1'', str ''Datos: Labels: a, c; Valores: 1, 5'',
      str ''Datos: Labels: b; Valores: 2'', str ''Contenido: z''] =
     Inr \<lparr>slides = [],
          current = Some (emptySlide\<lparr>content := [str ''z''],
                      graph := Some \<lparr>labels = [str ''b''], values' = [Finite 2]\<rparr>\<rparr>)\<rparr>"
  using C5_last_data_line_determines_graph [where d = "str ''Datos: Labels: b; Valores: 2''"
      and post = "[str ''Contenido: z'']" and st = initial
      and pre = "[str ''Diapositiva 1'', str ''Datos: Labels: a, c; Valores: 1, 5'']"
      and d' = "str ''Datos: Labels: b; Valores: 2''" and re_tit = re_titulo
      and post' = "[str ''Contenido: z'']"
      and pre' = "[str ''Diapositiva 1'', str ''Datos: Labels: a, c; Valores: 1, 5'']"
      and st'' = "\<lparr>slides = [],
          current = Some (emptySlide\<lparr>content := [str ''z''],
                      graph := Some \<lparr>labels = [str ''b''], values' = [Finite 2]\<rparr>\<rparr>)\<rparr>"]
  by (simp add: eval_defs cong: let_weak_cong)

subsection \<open>Values of a data line\<close>





















subsection \<open>Keyword lines that a copy of the parser does not know\<close>

lemma grafica_prefix: "reTest re_grafica line \<Longrightarrow> map canonicalize (take 2 line) = [71, 82]"
  by (auto simp: reTest_def re_grafica_def str_def canonicalize_numeral split: option.splits dest!: matchLit2)

lemma titulo_plain_prefix: "reTest re_titulo_plain line \<Longrightarrow> map canonicalize (take 2 line) = [84, 73]"
  by (auto simp: reTest_def re_titulo_plain_def str_def canonicalize_numeral split: option.splits dest!: matchLit2)

lemma grafica_line_legacy: "reTest re_grafica line \<Longrightarrow> reTest re_datos_test_legacy line"
  by (auto simp: reTest_def re_grafica_def re_datos_test_legacy_def split: option.splits)

lemma grafica_line_plain: "reTest re_grafica line \<Longrightarrow> plainLine line \<and> line \<noteq> []"
  unfolding plainLine_def
  by (auto dest!: grafica_prefix marker_prefix titulo_prefix contenido_prefix datos_prefix
      descripcion_prefix adjunto_prefix)

text \<open>In \<^verbatim>\<open>src/script.js\<close> a line with the chart keyword is content, whatever follows the
  keyword.\<close>

lemma processLine_grafica:
  assumes "reTest re_grafica (trim l)"
  shows "processLine st l =
    Inr \<lparr>slides = slides st,
         current = Some ((cur st)\<lparr>content := content (cur st) @ fragments 59 (trim l)\<rparr>)\<rparr>"
proof -
  from assms have "plainLine (trim l)" "trim l \<noteq> []" "\<not> isSlideMarker (trim l)"
    using grafica_line_plain [of "trim l"] by (simp_all add: plainLine_def)
  then show ?thesis
    by (simp add: processLine_step step_no_marker lineEffect_plain)
qed

text \<open>In the test script of \<^verbatim>\<open>part_001\<close> a title line without the accent is content.\<close>

lemma processLine_part001_titulo_plain:
  assumes "reTest re_titulo_plain line" "current st = Some c"
  shows "processLine_legacy re_titulo_accent st line =
    Inr (st\<lparr>current := Some (c\<lparr>content := content c @ fragments 59 line\<rparr>)\<rparr>)"
proof -
  from assms(1) have "\<not> isSlideMarker line" "\<not> reTest re_titulo_accent line"
    "\<not> reTest re_contenido line" "\<not> reTest re_datos_test_legacy line"
    "\<not> reTest re_descripcion line" "\<not> reTest re_adjunto line"
    by (auto dest!: titulo_plain_prefix marker_prefix titulo_accent_prefix contenido_prefix
        datos_legacy_prefix descripcion_prefix adjunto_prefix)
  with assms(2) show ?thesis
    by (simp add: processLine_legacy_Some lineEffect_legacy_def)
qed

end
